theory Spec2Isabelle
  imports Main "HOL-Library.Word" "HOL-Library.AList" "HOL-Library.Sublist"
begin

section \<open>JavaScript strings\<close>

text \<open>
  A JavaScript string is a sequence of 16-bit code units. The regular expressions of
  \<^verbatim>\<open>webpack.common.config.ts\<close> carry no \<^verbatim>\<open>u\<close> flag, so they see a string one code
  unit at a time. String literals of the source are all ASCII; \<open>ascii\<close> reads such a
  literal as its code units.
\<close>

type_synonym code_unit = "16 word"

type_synonym js_string = "code_unit list"

abbreviation cu :: "char \<Rightarrow> code_unit" where
  "cu \<equiv> of_char"

definition ascii :: "string \<Rightarrow> js_string" where
  "ascii = map cu"

section \<open>Regular expressions\<close>

text \<open>
  The three patterns read by the properties below, \<^verbatim>\<open>/[^\d.\-a-z]/g\<close>,
  \<^verbatim>\<open>/[\\/]node_modules/\<close> and \<^verbatim>\<open>/lyft/\<close>, are sequences of atoms that each consume
  one code unit: a pattern character, or a character class (possibly inverted by
  \<^verbatim>\<open>^\<close>) of single characters, ranges and the escape \<^verbatim>\<open>\d\<close>, which in JavaScript is
  \<^verbatim>\<open>[0-9]\<close>. None of them has the \<^verbatim>\<open>i\<close> flag.
\<close>

datatype class_range = ClassDigit | ClassChar code_unit | ClassRange code_unit code_unit

fun class_range_matches :: "class_range \<Rightarrow> code_unit \<Rightarrow> bool" where
  "class_range_matches ClassDigit c = (cu CHR ''0'' \<le> c \<and> c \<le> cu CHR ''9'')"
| "class_range_matches (ClassChar d) c = (c = d)"
| "class_range_matches (ClassRange lo hi) c = (lo \<le> c \<and> c \<le> hi)"

datatype re_atom = PatternChar code_unit | CharacterClass bool "class_range list"

fun atom_matches :: "re_atom \<Rightarrow> code_unit \<Rightarrow> bool" where
  "atom_matches (PatternChar d) c = (c = d)"
| "atom_matches (CharacterClass invert rs) c =
     (list_ex (\<lambda>r. class_range_matches r c) rs \<noteq> invert)"

type_synonym regexp = "re_atom list"

text \<open>\<open>match_at r s\<close>: the pattern matches at index 0 of \<open>s\<close>.\<close>

fun match_at :: "regexp \<Rightarrow> js_string \<Rightarrow> bool" where
  "match_at [] s = True"
| "match_at (a # as) [] = False"
| "match_at (a # as) (c # cs) = (atom_matches a c \<and> match_at as cs)"

text \<open>\<^verbatim>\<open>RegExp.prototype.test\<close> of a pattern without \<^verbatim>\<open>g\<close> or \<^verbatim>\<open>y\<close>: a match at some index.\<close>

fun regexp_test :: "regexp \<Rightarrow> js_string \<Rightarrow> bool" where
  "regexp_test r [] = match_at r []"
| "regexp_test r (c # cs) = (match_at r (c # cs) \<or> regexp_test r cs)"

text \<open>
  \<^verbatim>\<open>String.prototype.replace\<close> with a \<^verbatim>\<open>g\<close> pattern and a replacement string without
  \<^verbatim>\<open>$\<close>: scanning from the left, every match is replaced and the scan goes on behind
  it (one code unit further after an empty match); a code unit where no match starts
  is copied.
\<close>

function String_replace :: "js_string \<Rightarrow> regexp \<Rightarrow> js_string \<Rightarrow> js_string" where
  "String_replace [] r rep = (if match_at r [] then rep else [])"
| "String_replace (c # cs) r rep =
     (if match_at r (c # cs)
      then (if r = [] then rep @ c # String_replace cs r rep
            else rep @ String_replace (drop (length r) (c # cs)) r rep)
      else c # String_replace cs r rep)"
  by pat_completeness auto
termination
  by (relation "measure (\<lambda>(s, r, rep). length s)") auto

section \<open>The version sanitizer\<close>

text \<open>
  \<^verbatim>\<open>export function absoluteVersion(version: string) {
    return version.replace(/[^\d.\-a-z]/g, '');
  }\<close>
\<close>

definition version_pattern :: regexp where
  "version_pattern =
     [CharacterClass True
        [ClassDigit, ClassChar (cu CHR ''.''), ClassChar (cu CHR ''-''),
         ClassRange (cu CHR ''a'') (cu CHR ''z'')]]"

definition absoluteVersion :: "js_string \<Rightarrow> js_string" where
  "absoluteVersion version = String_replace version version_pattern []"

text \<open>
  The character set in the words of the specification: a digit, a lowercase letter,
  a period or a hyphen.
\<close>

definition version_char :: "code_unit \<Rightarrow> bool" where
  "version_char c \<longleftrightarrow> c \<in> set (ascii ''0123456789abcdefghijklmnopqrstuvwxyz.-'')"

section \<open>Values, objects and the process environment\<close>

text \<open>
  A variable of the process environment is a string when it is set and \<^verbatim>\<open>undefined\<close>
  when it is not, and these are the values the source handles: \<^verbatim>\<open>a || b\<close> is \<open>a\<close>
  when \<open>a\<close> is truthy and \<open>b\<close> otherwise, and a template literal converts its
  substitution with \<^verbatim>\<open>ToString\<close>.
\<close>

datatype js_value = JSUndefined | JSString js_string

fun ToBoolean :: "js_value \<Rightarrow> bool" where
  "ToBoolean JSUndefined = False"
| "ToBoolean (JSString s) = (s \<noteq> [])"

definition logical_or :: "js_value \<Rightarrow> js_value \<Rightarrow> js_value" where
  "logical_or a b = (if ToBoolean a then a else b)"

fun ToString :: "js_value \<Rightarrow> js_string" where
  "ToString JSUndefined = ascii ''undefined''"
| "ToString (JSString s) = s"

text \<open>
  An object is the list of its own enumerable properties. \<^verbatim>\<open>Object.keys\<close> lists the
  keys, a property read gives \<^verbatim>\<open>undefined\<close> for a key the object does not have, and
  the literal \<^verbatim>\<open>{ ...result, [key]: v }\<close> copies \<open>result\<close> and then defines \<open>key\<close>: an
  existing property keeps its place and takes the new value, a new one comes last.
  (JavaScript enumerates keys that are array indices before the others; no property
  below depends on the order of enumeration.)
\<close>

type_synonym js_object = "(js_string \<times> js_value) list"

definition Object_keys :: "js_object \<Rightarrow> js_string list" where
  "Object_keys obj = map fst obj"

definition Get :: "js_object \<Rightarrow> js_string \<Rightarrow> js_value" where
  "Get obj key = (case map_of obj key of None \<Rightarrow> JSUndefined | Some v \<Rightarrow> v)"

definition spread_with :: "js_object \<Rightarrow> js_string \<Rightarrow> js_value \<Rightarrow> js_object" where
  "spread_with result key v = AList.update key v result"

text \<open>\<^verbatim>\<open>process.env\<close> of the build process: a variable is unset or holds a string.\<close>

type_synonym process_env = "js_string \<rightharpoonup> js_string"

definition env_get :: "process_env \<Rightarrow> js_string \<Rightarrow> js_value" where
  "env_get penv key = (case penv key of None \<Rightarrow> JSUndefined | Some s \<Rightarrow> JSString s)"

section \<open>\<^verbatim>\<open>JSON.stringify\<close>\<close>

text \<open>
  \<^verbatim>\<open>JSON.stringify\<close> of \<^verbatim>\<open>undefined\<close> is \<^verbatim>\<open>undefined\<close>; of a string it is
  \<^verbatim>\<open>QuoteJSONString\<close> (ECMAScript 2019 and later): the string between two quotation
  marks (0x22), read by code points, with the two-character escapes for backspace,
  tab, line feed, form feed, carriage return, quotation mark and reverse solidus
  (0x5C), a \<^verbatim>\<open>\uXXXX\<close> escape for every other code unit below 0x20 and for every
  surrogate that is not part of a pair, and everything else as it is.
\<close>

definition hex_digit :: "nat \<Rightarrow> code_unit" where
  "hex_digit n = (if n < 10 then cu CHR ''0'' + of_nat n else cu CHR ''a'' + of_nat (n - 10))"

definition UnicodeEscape :: "code_unit \<Rightarrow> js_string" where
  "UnicodeEscape c =
     [0x5C, cu CHR ''u'', hex_digit (unat c div 4096), hex_digit (unat c div 256 mod 16),
      hex_digit (unat c div 16 mod 16), hex_digit (unat c mod 16)]"

definition is_leading_surrogate :: "code_unit \<Rightarrow> bool" where
  "is_leading_surrogate c = (0xD800 \<le> c \<and> c \<le> 0xDBFF)"

definition is_trailing_surrogate :: "code_unit \<Rightarrow> bool" where
  "is_trailing_surrogate c = (0xDC00 \<le> c \<and> c \<le> 0xDFFF)"

text \<open>The product for one code point that is a single code unit.\<close>

definition quote_code_unit :: "code_unit \<Rightarrow> js_string" where
  "quote_code_unit c =
     (if c = 0x08 then [0x5C, cu CHR ''b'']
      else if c = 0x09 then [0x5C, cu CHR ''t'']
      else if c = 0x0A then [0x5C, cu CHR ''n'']
      else if c = 0x0C then [0x5C, cu CHR ''f'']
      else if c = 0x0D then [0x5C, cu CHR ''r'']
      else if c = 0x22 then [0x5C, 0x22]
      else if c = 0x5C then [0x5C, 0x5C]
      else if c < 0x20 \<or> is_leading_surrogate c \<or> is_trailing_surrogate c
      then UnicodeEscape c
      else [c])"

fun quote_code_points :: "js_string \<Rightarrow> js_string" where
  "quote_code_points [] = []"
| "quote_code_points [c] = quote_code_unit c"
| "quote_code_points (c # d # cs) =
     (if is_leading_surrogate c \<and> is_trailing_surrogate d
      then c # d # quote_code_points cs
      else quote_code_unit c @ quote_code_points (d # cs))"

definition QuoteJSONString :: "js_string \<Rightarrow> js_string" where
  "QuoteJSONString s = 0x22 # quote_code_points s @ [0x22]"

fun JSON_stringify :: "js_value \<Rightarrow> js_value" where
  "JSON_stringify JSUndefined = JSUndefined"
| "JSON_stringify (JSString s) = JSString (QuoteJSONString s)"

text \<open>
  The code units that need no escape: not below 0x20, not a quotation mark, not a
  reverse solidus and not a surrogate.
\<close>

definition plain :: "code_unit \<Rightarrow> bool" where
  "plain c \<longleftrightarrow>
     0x20 \<le> c \<and> c \<noteq> 0x22 \<and> c \<noteq> 0x5C \<and>
     \<not> is_leading_surrogate c \<and> \<not> is_trailing_surrogate c"

section \<open>The build profiles\<close>

text \<open>
  \<^verbatim>\<open>export const serviceName = process.env.SERVICE_NAME || 'not set';\<close>
\<close>

definition serviceName :: "process_env \<Rightarrow> js_value" where
  "serviceName penv =
     logical_or (env_get penv (ascii ''SERVICE_NAME'')) (JSString (ascii ''not set''))"

text \<open>
  The object \<^verbatim>\<open>processEnv\<close> of the module \<^verbatim>\<open>./env\<close>, imported as \<open>env\<close>, is a
  parameter of everything that reads it.
  \<^verbatim>\<open>export const publicPath = `${env.BASE_URL}/assets/`;\<close>
\<close>

definition publicPath :: "js_object \<Rightarrow> js_string" where
  "publicPath env = ToString (Get env (ascii ''BASE_URL'')) @ ascii ''/assets/''"

text \<open>
  The plugins, each with the options the source passes as literals. The two keys of
  the definitions given to \<^verbatim>\<open>webpack.DefinePlugin\<close>, \<^verbatim>\<open>'process.env'\<close> and
  \<^verbatim>\<open>__isServer\<close>, are the fields \<open>def_process_env\<close> and \<open>def_isServer\<close>; the first is
  a string of code or an object of such strings.
\<close>

datatype code_value = CodeString js_string | CodeObject js_object

record define_plugin_definitions =
  def_process_env :: code_value
  def_isServer :: bool

record stats_writer_options =
  stats_filename :: js_string
  stats_fields :: "js_string list"

record limit_chunk_count_options =
  maxChunks :: nat

datatype plugin =
  ForkTsCheckerWebpackPlugin
| FavIconWebpackPlugin
| StatsWriterPlugin stats_writer_options
| DefinePlugin define_plugin_definitions
| LimitChunkCountPlugin limit_chunk_count_options

definition statsWriterPlugin :: plugin where
  "statsWriterPlugin =
     StatsWriterPlugin
       \<lparr>stats_filename = ascii ''client-stats.json'',
        stats_fields = map ascii [''chunks'', ''publicPath'', ''assets'', ''assetsByChunkName'',
                            ''assetsByChunkId'']\<rparr>"

definition favIconPlugin :: plugin where
  "favIconPlugin = FavIconWebpackPlugin"

text \<open>
  \<^verbatim>\<open>export const getDefinePlugin = (isServer: boolean) =>
    new webpack.DefinePlugin({
      'process.env': isServer
        ? 'process.env'
        : Object.keys(env).reduce(
            (result, key: string) => ({
              ...result,
              [key]: JSON.stringify((env as any)[key]),
            }),
            {},
          ),
      __isServer: isServer,
    });\<close>
\<close>

definition getDefinePlugin :: "js_object \<Rightarrow> bool \<Rightarrow> plugin" where
  "getDefinePlugin env isServer =
     DefinePlugin
       \<lparr>def_process_env =
          (if isServer then CodeString (ascii ''process.env'')
           else CodeObject
                  (foldl (\<lambda>result key. spread_with result key (JSON_stringify (Get env key)))
                     [] (Object_keys env))),
        def_isServer = isServer\<rparr>"

definition limitChunksPlugin :: plugin where
  "limitChunksPlugin = LimitChunkCountPlugin \<lparr>maxChunks = 1\<rparr>"

text \<open>
  Of a \<^verbatim>\<open>webpack.Configuration\<close> the model keeps the name, the target, the entry,
  the code-splitting policy, the externals, the output policy (the field \<^verbatim>\<open>output\<close>) and the plugin list;
  a field a profile does not set is \<open>None\<close>. The module resolution and the loader
  rules, the same in both profiles, are left out. The output folder \<open>dist\<close>, which
  the source computes as \<^verbatim>\<open>path.join(__dirname, 'dist')\<close>, is a parameter.
\<close>

record cache_group =
  chunks :: js_string
  enforce :: bool
  group_name :: js_string
  priority :: int
  test :: regexp

record split_chunks =
  cacheGroups :: "(js_string \<times> cache_group) list"

record optimization_options =
  splitChunks :: split_chunks

record output_options =
  publicPath_option :: js_string
  path :: js_string
  filename :: js_string
  chunkFilename :: "js_string option"
  clean :: "bool option"
  libraryTarget :: "js_string option"

record externals_presets =
  node :: bool

record node_externals_options =
  allowlist :: regexp

datatype external = nodeExternals node_externals_options

record configuration =
  name :: js_string
  target :: js_string
  entry :: "js_string list"
  optimization :: "optimization_options option"
  externalsPresets :: "externals_presets option"
  externals :: "external list option"
  output_policy :: output_options
  plugins :: "plugin list"

definition clientConfig :: "js_string \<Rightarrow> js_object \<Rightarrow> configuration" where
  "clientConfig dist env =
     \<lparr>name = ascii ''client'',
      target = ascii ''web'',
      entry = [ascii ''babel-polyfill'', ascii ''./src/client''],
      optimization =
        Some \<lparr>splitChunks =
          \<lparr>cacheGroups =
            [(ascii ''vendor'',
              \<lparr>chunks = ascii ''initial'',
               enforce = True,
               group_name = ascii ''vendor'',
               priority = 10,
               test = CharacterClass False [ClassChar 0x5C, ClassChar (cu CHR ''/'')]
                        # map PatternChar (ascii ''node_modules'')\<rparr>)]\<rparr>\<rparr>,
      externalsPresets = None,
      externals = None,
      output_policy =
        \<lparr>publicPath_option = publicPath env,
         path = dist,
         filename = ascii ''[name]-[fullhash:8].js'',
         chunkFilename = Some (ascii ''[name]-[chunkhash].chunk.js''),
         clean = Some True,
         libraryTarget = None\<rparr>,
      plugins =
        [ForkTsCheckerWebpackPlugin, favIconPlugin, statsWriterPlugin,
         getDefinePlugin env False]\<rparr>"

definition serverConfig :: "js_string \<Rightarrow> js_object \<Rightarrow> configuration" where
  "serverConfig dist env =
     \<lparr>name = ascii ''server'',
      target = ascii ''node'',
      entry = [ascii ''babel-polyfill'', ascii ''./src/server''],
      optimization = None,
      externalsPresets = Some \<lparr>node = True\<rparr>,
      externals = Some [nodeExternals \<lparr>allowlist = map PatternChar (ascii ''lyft'')\<rparr>],
      output_policy =
        \<lparr>publicPath_option = ascii ''/'',
         path = dist,
         filename = ascii ''server.js'',
         chunkFilename = None,
         clean = None,
         libraryTarget = Some (ascii ''commonjs2'')\<rparr>,
      plugins = [limitChunksPlugin, ForkTsCheckerWebpackPlugin, getDefinePlugin env True]\<rparr>"

text \<open>
  Modelled from the spec: the externals function that \<^verbatim>\<open>nodeExternals\<close> of the package
  \<^verbatim>\<open>webpack-node-externals\<close> builds from its options; the package is not among the
  sources. In the words of the specification, the rule excludes all host-provided
  runtime packages from being bundled, except for the allow-listed package-name
  pattern. The names of the host-provided packages are the parameter \<open>host\<close>.
\<close>

fun externalizes :: "external \<Rightarrow> js_string list \<Rightarrow> js_string \<Rightarrow> bool" where
  "externalizes (nodeExternals opts) host module_name =
     (module_name \<in> set host \<and> \<not> regexp_test (allowlist opts) module_name)"

text \<open>A module is external to a profile when one of the profile's externals says so.\<close>

definition is_external :: "configuration \<Rightarrow> js_string list \<Rightarrow> js_string \<Rightarrow> bool" where
  "is_external config host module_name =
     (case externals config of
        None \<Rightarrow> False
      | Some es \<Rightarrow> list_ex (\<lambda>e. externalizes e host module_name) es)"

section \<open>Lemmas\<close>

subsection \<open>The version pattern\<close>

text \<open>A range of code units, as the set of its members.\<close>

lemma word_range_image:
  fixes c :: code_unit
  shows "(lo \<le> c \<and> c \<le> hi) \<longleftrightarrow> c \<in> of_nat ` set [unat lo ..< Suc (unat hi)]"
proof
  assume "lo \<le> c \<and> c \<le> hi"
  then have "unat c \<in> set [unat lo ..< Suc (unat hi)]"
    by (auto simp add: word_le_nat_alt)
  then have "of_nat (unat c) \<in> (of_nat ` set [unat lo ..< Suc (unat hi)] :: code_unit set)"
    by (rule imageI)
  then show "c \<in> of_nat ` set [unat lo ..< Suc (unat hi)]" by simp
next
  assume "c \<in> of_nat ` set [unat lo ..< Suc (unat hi)]"
  then obtain n where n: "c = of_nat n" "unat lo \<le> n" "n \<le> unat hi" by auto
  have "unat (of_nat n :: code_unit) = n" using n(3) by (rule le_unat_uoi)
  with n show "lo \<le> c \<and> c \<le> hi" by (simp add: word_le_nat_alt)
qed

lemma range_digit:
  fixes c :: code_unit
  shows "(cu CHR ''0'' \<le> c \<and> c \<le> cu CHR ''9'') \<longleftrightarrow> c \<in> set (ascii ''0123456789'')"
  unfolding word_range_image by (simp add: ascii_def upt_rec_numeral)

lemma range_lower:
  fixes c :: code_unit
  shows "(cu CHR ''a'' \<le> c \<and> c \<le> cu CHR ''z'') \<longleftrightarrow>
     c \<in> set (ascii ''abcdefghijklmnopqrstuvwxyz'')"
  unfolding word_range_image by (simp add: ascii_def upt_rec_numeral)

lemma match_version_pattern: "match_at version_pattern (c # cs) \<longleftrightarrow> \<not> version_char c"
  unfolding version_pattern_def version_char_def
  apply (simp only: match_at.simps atom_matches.simps list_ex_Nil_iff list_ex_Cons_iff
      class_range_matches.simps range_digit range_lower)
  apply (simp add: ascii_def)
  apply blast
  done

lemma String_replace_filter: "String_replace s version_pattern [] = filter version_char s"
proof (induction s)
  case Nil
  show ?case by (simp add: version_pattern_def)
next
  case (Cons c cs)
  have len: "length version_pattern = Suc 0" "version_pattern \<noteq> []"
    by (simp_all add: version_pattern_def)
  show ?case
    using Cons match_version_pattern [of c cs] by (simp add: len del: match_at.simps)
qed

subsection \<open>Matching\<close>

lemma match_at_literal: "match_at (map PatternChar p) s \<longleftrightarrow> prefix p s"
proof (induction p arbitrary: s)
  case Nil
  show ?case by simp
next
  case (Cons a p)
  then show ?case by (cases s) auto
qed

lemma regexp_test_literal: "regexp_test (map PatternChar p) s \<longleftrightarrow> sublist p s"
proof (induction s)
  case Nil
  show ?case by (simp add: match_at_literal)
next
  case (Cons c cs)
  then show ?case by (simp add: match_at_literal sublist_Cons_right del: match_at.simps)
qed

lemma match_at_regexp_test: "match_at r s \<Longrightarrow> regexp_test r s"
  by (cases s) simp_all

lemma regexp_test_append: "regexp_test r s \<Longrightarrow> regexp_test r (pre @ s)"
proof (induction pre)
  case Nil
  then show ?case by simp
next
  case (Cons c pre)
  then show ?case by simp
qed

subsection \<open>Quoting\<close>

lemma quote_code_unit_plain: "plain c \<Longrightarrow> quote_code_unit c = [c]"
  by (auto simp add: plain_def quote_code_unit_def)

lemma quote_code_points_plain: "list_all plain s \<Longrightarrow> quote_code_points s = s"
  by (induction s rule: quote_code_points.induct) (simp_all add: quote_code_unit_plain plain_def)

subsection \<open>Projection\<close>

lemma projection_map_of:
  "map_of (foldl (\<lambda>result key. spread_with result key (f key)) acc ks) =
     (\<lambda>key. if key \<in> set ks then Some (f key) else map_of acc key)"
proof (induction ks arbitrary: acc)
  case Nil
  show ?case by simp
next
  case (Cons k ks)
  have "map_of (spread_with acc k (f k)) = (map_of acc)(k \<mapsto> f k)"
    by (simp add: spread_with_def update_conv')
  then show ?case by (auto simp add: Cons fun_eq_iff)
qed

lemma projection_keys:
  "set (Object_keys (foldl (\<lambda>result key. spread_with result key (f key)) acc ks)) =
     set (Object_keys acc) \<union> set ks"
proof (induction ks arbitrary: acc)
  case Nil
  show ?case by simp
next
  case (Cons k ks)
  have "set (Object_keys (spread_with acc k (f k))) = insert k (set (Object_keys acc))"
    using dom_update [of k "f k" acc] by (simp add: Object_keys_def spread_with_def)
  then show ?case by (simp add: Cons)
qed

lemma projection_distinct:
  "distinct (Object_keys acc) \<Longrightarrow>
   distinct (Object_keys (foldl (\<lambda>result key. spread_with result key (f key)) acc ks))"
proof (induction ks arbitrary: acc)
  case Nil
  then show ?case by simp
next
  case (Cons k ks)
  from Cons.prems have "distinct (Object_keys (spread_with acc k (f k)))"
    by (simp add: Object_keys_def spread_with_def distinct_update)
  then show ?case by (simp add: Cons.IH)
qed

lemma update_fresh: "k \<notin> fst ` set al \<Longrightarrow> AList.update k v al = al @ [(k, v)]"
  by (induction al) auto

lemma projection_exact:
  "distinct (map fst (acc @ xs)) \<Longrightarrow>
   foldl (\<lambda>result key. spread_with result key (f key)) acc (map fst xs) =
     acc @ map (\<lambda>(key, v). (key, f key)) xs"
proof (induction xs arbitrary: acc)
  case Nil
  show ?case by simp
next
  case (Cons x xs)
  obtain k v where x: "x = (k, v)" by (cases x)
  from Cons.prems x have fresh: "k \<notin> fst ` set acc" by auto
  from Cons.prems x have "distinct (map fst ((acc @ [(k, f k)]) @ xs))" by auto
  from Cons.IH [OF this] show ?case
    by (simp add: x spread_with_def update_fresh [OF fresh])
qed

lemma Get_distinct: "distinct (map fst obj) \<Longrightarrow> (key, v) \<in> set obj \<Longrightarrow> Get obj key = v"
  by (simp add: Get_def)

section \<open>Properties of the configuration\<close>

text \<open>
  C3. For every string, \<open>absoluteVersion\<close> returns the string with every code unit
  deleted that is not a digit, a lowercase letter, a period or a hyphen, the others
  staying in their order. The empty string gives the empty string, and
  \<^verbatim>\<open>^1.2.3-alpha.1\<close> gives \<^verbatim>\<open>1.2.3-alpha.1\<close>. The function is total: there is no
  input on which the replacement fails.
\<close>

theorem absoluteVersion_sanitizes:
  "absoluteVersion version = filter version_char version \<and>
   absoluteVersion [] = [] \<and>
   absoluteVersion (ascii ''^1.2.3-alpha.1'') = ascii ''1.2.3-alpha.1''"
proof -
  have sanitized: "absoluteVersion s = filter version_char s" for s
    by (simp add: absoluteVersion_def String_replace_filter)
  have "filter version_char (ascii ''^1.2.3-alpha.1'') = ascii ''1.2.3-alpha.1''"
    by (simp add: version_char_def ascii_def)
  then show ?thesis by (simp add: sanitized)
qed

text \<open>
  C4. \<open>absoluteVersion\<close> is idempotent, its result is a subsequence of its input, and
  the result consists of exactly those code units of the input that belong to the
  set of the digits, the lowercase letters, the period and the hyphen.
\<close>

theorem absoluteVersion_idempotent:
  "absoluteVersion (absoluteVersion s) = absoluteVersion s \<and>
   subseq (absoluteVersion s) s \<and>
   set (absoluteVersion s) = {c \<in> set s. version_char c} \<and>
   absoluteVersion s = filter version_char s"
proof -
  have sanitized: "absoluteVersion s = filter version_char s" for s
    by (simp add: absoluteVersion_def String_replace_filter)
  show ?thesis by (auto simp add: sanitized)
qed

text \<open>
  C9. When \<^verbatim>\<open>SERVICE_NAME\<close> is not set, \<open>serviceName\<close> is the placeholder
  \<^verbatim>\<open>not set\<close>; when it is set to a string that is not empty, \<open>serviceName\<close> is that
  string. In every environment \<open>serviceName\<close> is a string: the expression has no
  failing case.
\<close>

theorem serviceName_default:
  "(penv (ascii ''SERVICE_NAME'') = None \<longrightarrow> serviceName penv = JSString (ascii ''not set'')) \<and>
   (\<forall>v. penv (ascii ''SERVICE_NAME'') = Some v \<and> v \<noteq> [] \<longrightarrow> serviceName penv = JSString v) \<and>
   (\<exists>s. serviceName penv = JSString s)"
  by (auto simp add: serviceName_def env_get_def logical_or_def split: option.splits)

text \<open>
  \<open>serviceName\<close> in an environment without the variable and in one that sets it.
\<close>

theorem serviceName_default_witness:
  "serviceName Map.empty = JSString (ascii ''not set'') \<and>
   serviceName [ascii ''SERVICE_NAME'' \<mapsto> ascii ''flyteconsole''] = JSString (ascii ''flyteconsole'')"
proof -
  have unset: "Map.empty (ascii ''SERVICE_NAME'') = (None :: js_string option)" by simp
  have set: "[ascii ''SERVICE_NAME'' \<mapsto> ascii ''flyteconsole''] (ascii ''SERVICE_NAME'') =
      Some (ascii ''flyteconsole'') \<and> ascii ''flyteconsole'' \<noteq> []"
    by (simp add: ascii_def)
  from serviceName_default [of Map.empty] unset
  have "serviceName Map.empty = JSString (ascii ''not set'')" by blast
  moreover from serviceName_default [of "[ascii ''SERVICE_NAME'' \<mapsto> ascii ''flyteconsole'']"] set
  have "serviceName [ascii ''SERVICE_NAME'' \<mapsto> ascii ''flyteconsole''] = JSString (ascii ''flyteconsole'')"
    by blast
  ultimately show ?thesis by simp
qed

text \<open>
  C10. When \<^verbatim>\<open>SERVICE_NAME\<close> is set to the empty string, \<open>serviceName\<close> is the
  placeholder \<^verbatim>\<open>not set\<close> as well: the default stands for every falsy value of the
  variable, and \<open>serviceName\<close> is never the empty string.
\<close>

theorem serviceName_falsy:
  "(penv (ascii ''SERVICE_NAME'') = Some [] \<longrightarrow> serviceName penv = JSString (ascii ''not set'')) \<and>
   (\<not> ToBoolean (env_get penv (ascii ''SERVICE_NAME'')) \<longrightarrow>
      serviceName penv = JSString (ascii ''not set'')) \<and>
   serviceName penv \<noteq> JSString []"
  by (auto simp add: serviceName_def env_get_def logical_or_def ascii_def split: option.splits)

text \<open>
  \<open>serviceName\<close> in an environment that sets the variable to the empty string.
\<close>

theorem serviceName_falsy_witness:
  "serviceName [ascii ''SERVICE_NAME'' \<mapsto> []] = JSString (ascii ''not set'') \<and>
   serviceName [ascii ''SERVICE_NAME'' \<mapsto> []] \<noteq> JSString []"
proof -
  have empty: "[ascii ''SERVICE_NAME'' \<mapsto> []] (ascii ''SERVICE_NAME'') = Some ([] :: js_string)"
    by simp
  from serviceName_falsy [of "[ascii ''SERVICE_NAME'' \<mapsto> []]"] empty
  show ?thesis by blast
qed

text \<open>
  C1. For every environment object \<open>env\<close>, the plugin built for the browser target
  carries the server flag \<^verbatim>\<open>false\<close> and, under \<^verbatim>\<open>'process.env'\<close>, an object whose keys
  are exactly the keys of \<open>env\<close>, each once, and in which the value of every key is
  \<^verbatim>\<open>JSON.stringify\<close> of the value \<open>env\<close> has for it. A string value therefore
  appears between two quotation marks, with its code points escaped as JSON
  prescribes, and a string that needs no escape, such as \<^verbatim>\<open>60\<close> or \<^verbatim>\<open>true\<close>, appears
  unchanged between them. (For a key whose value is \<^verbatim>\<open>undefined\<close>,
  \<^verbatim>\<open>JSON.stringify\<close> gives \<^verbatim>\<open>undefined\<close>.) When the keys of \<open>env\<close> are listed
  without repetition, the object is \<open>env\<close> with every value encoded, in the same
  order.
\<close>

theorem getDefinePlugin_browser:
  "\<exists>projection.
     getDefinePlugin env False =
       DefinePlugin \<lparr>def_process_env = CodeObject projection, def_isServer = False\<rparr> \<and>
     set (Object_keys projection) = set (Object_keys env) \<and>
     distinct (Object_keys projection) \<and>
     (\<forall>key \<in> set (Object_keys env).
        map_of projection key = Some (JSON_stringify (Get env key))) \<and>
     (\<forall>key s. Get env key = JSString s \<longrightarrow>
        Get projection key = JSString (0x22 # quote_code_points s @ [0x22])) \<and>
     (\<forall>key s. Get env key = JSString s \<and> list_all plain s \<longrightarrow>
        Get projection key = JSString (0x22 # s @ [0x22])) \<and>
     (distinct (Object_keys env) \<longrightarrow>
        projection = map (\<lambda>(key, v). (key, JSON_stringify v)) env)"
proof -
  define projection where
    "projection =
       foldl (\<lambda>result key. spread_with result key (JSON_stringify (Get env key)))
         [] (Object_keys env)"
  have plugin: "getDefinePlugin env False =
      DefinePlugin \<lparr>def_process_env = CodeObject projection, def_isServer = False\<rparr>"
    by (simp add: getDefinePlugin_def projection_def)
  have keys: "set (Object_keys projection) = set (Object_keys env)"
    unfolding projection_def projection_keys by (simp add: Object_keys_def)
  have dist: "distinct (Object_keys projection)"
    unfolding projection_def by (rule projection_distinct) (simp add: Object_keys_def)
  have lookup: "map_of projection key = Some (JSON_stringify (Get env key))"
    if "key \<in> set (Object_keys env)" for key
    using that unfolding projection_def projection_map_of by simp
  have quoted: "Get projection key = JSString (0x22 # quote_code_points s @ [0x22])"
    if "Get env key = JSString s" for key s
  proof -
    from that have "map_of env key = Some (JSString s)"
      by (simp add: Get_def split: option.splits)
    then have "key \<in> set (Object_keys env)"
      by (auto simp add: Object_keys_def dest: map_of_SomeD intro: rev_image_eqI)
    from lookup [OF this] that show ?thesis
      by (simp add: Get_def QuoteJSONString_def)
  qed
  have unescaped: "Get projection key = JSString (0x22 # s @ [0x22])"
    if "Get env key = JSString s \<and> list_all plain s" for key s
    using that quoted [of key s] by (simp add: quote_code_points_plain)
  have exact: "projection = map (\<lambda>(key, v). (key, JSON_stringify v)) env"
    if d: "distinct (Object_keys env)"
  proof -
    from d have "distinct (map fst ([] @ env))" by (simp add: Object_keys_def)
    then have "projection = [] @ map (\<lambda>(key, v). (key, JSON_stringify (Get env key))) env"
      unfolding projection_def Object_keys_def by (rule projection_exact)
    also have "map (\<lambda>(key, v). (key, JSON_stringify (Get env key))) env =
        map (\<lambda>(key, v). (key, JSON_stringify v)) env"
      using d by (auto simp add: Object_keys_def Get_distinct)
    finally show ?thesis by simp
  qed
  from plugin keys dist lookup quoted unescaped exact show ?thesis by blast
qed

text \<open>
  The projection of an example environment, with a value that looks numeric, one
  that looks boolean and one that is not set.
\<close>

theorem getDefinePlugin_browser_witness:
  "getDefinePlugin
     [(ascii ''BASE_URL'', JSString (ascii ''https://x.com'')),
      (ascii ''NODE_ENV'', JSString (ascii ''production'')),
      (ascii ''TTL'', JSString (ascii ''60'')),
      (ascii ''DISABLE_AUTH'', JSString (ascii ''true'')),
      (ascii ''STATUS_URL'', JSUndefined)] False =
   DefinePlugin
     \<lparr>def_process_env = CodeObject
        [(ascii ''BASE_URL'', JSString (0x22 # ascii ''https://x.com'' @ [0x22])),
         (ascii ''NODE_ENV'', JSString (0x22 # ascii ''production'' @ [0x22])),
         (ascii ''TTL'', JSString (0x22 # ascii ''60'' @ [0x22])),
         (ascii ''DISABLE_AUTH'', JSString (0x22 # ascii ''true'' @ [0x22])),
         (ascii ''STATUS_URL'', JSUndefined)],
      def_isServer = False\<rparr>"
proof -
  let ?env = "[(ascii ''BASE_URL'', JSString (ascii ''https://x.com'')),
      (ascii ''NODE_ENV'', JSString (ascii ''production'')),
      (ascii ''TTL'', JSString (ascii ''60'')),
      (ascii ''DISABLE_AUTH'', JSString (ascii ''true'')),
      (ascii ''STATUS_URL'', JSUndefined)]"
  have d: "distinct (Object_keys ?env)"
    by (simp add: Object_keys_def ascii_def)
  from getDefinePlugin_browser [of ?env] obtain projection where
    plugin: "getDefinePlugin ?env False =
      DefinePlugin \<lparr>def_process_env = CodeObject projection, def_isServer = False\<rparr>"
    and exact: "distinct (Object_keys ?env) \<longrightarrow>
      projection = map (\<lambda>(key, v). (key, JSON_stringify v)) ?env"
    by blast
  from exact d have "projection = map (\<lambda>(key, v). (key, JSON_stringify v)) ?env" by blast
  also have "\<dots> =
        [(ascii ''BASE_URL'', JSString (0x22 # ascii ''https://x.com'' @ [0x22])),
         (ascii ''NODE_ENV'', JSString (0x22 # ascii ''production'' @ [0x22])),
         (ascii ''TTL'', JSString (0x22 # ascii ''60'' @ [0x22])),
         (ascii ''DISABLE_AUTH'', JSString (0x22 # ascii ''true'' @ [0x22])),
         (ascii ''STATUS_URL'', JSUndefined)]"
    by (simp add: QuoteJSONString_def quote_code_unit_def is_leading_surrogate_def
        is_trailing_surrogate_def ascii_def)
  finally show ?thesis using plugin by simp
qed

text \<open>
  C2. For every environment object, the plugin built for the server target carries
  the string \<^verbatim>\<open>'process.env'\<close>, whatever the environment holds, and the server flag
  \<^verbatim>\<open>true\<close>.
\<close>

theorem getDefinePlugin_server:
  "getDefinePlugin env True =
     DefinePlugin \<lparr>def_process_env = CodeString (ascii ''process.env''), def_isServer = True\<rparr>"
  by (simp add: getDefinePlugin_def)

text \<open>
  C5. The code-splitting policy of the client profile has exactly one cache group.
  Its key and its name are \<^verbatim>\<open>vendor\<close>, it applies to the \<^verbatim>\<open>initial\<close> chunks, it is
  enforced, its priority is 10, above 0, and its test matches every path in which a
  separator (a solidus or a reverse solidus) is followed by \<^verbatim>\<open>node_modules\<close>, so
  every path that lies under a \<^verbatim>\<open>node_modules\<close> directory.
\<close>

theorem clientConfig_vendor_group:
  "\<exists>vendor.
     optimization (clientConfig dist env) =
       Some \<lparr>splitChunks = \<lparr>cacheGroups = [(ascii ''vendor'', vendor)]\<rparr>\<rparr> \<and>
     group_name vendor = ascii ''vendor'' \<and>
     chunks vendor = ascii ''initial'' \<and>
     enforce vendor = True \<and>
     priority vendor = 10 \<and> 0 < priority vendor \<and>
     (\<forall>dir sep rest. sep = cu CHR ''/'' \<or> sep = 0x5C \<longrightarrow>
        regexp_test (test vendor) (dir @ sep # ascii ''node_modules'' @ rest))"
proof -
  let ?test = "CharacterClass False [ClassChar 0x5C, ClassChar (cu CHR ''/'')]
                 # map PatternChar (ascii ''node_modules'')"
  have "regexp_test ?test (dir @ sep # ascii ''node_modules'' @ rest)"
    if "sep = cu CHR ''/'' \<or> sep = 0x5C" for dir sep rest
  proof -
    from that have "match_at ?test (sep # ascii ''node_modules'' @ rest)"
      by (auto simp add: match_at_literal)
    then show ?thesis by (intro regexp_test_append match_at_regexp_test)
  qed
  then show ?thesis by (simp add: clientConfig_def)
qed

text \<open>
  The test of the vendor group on the path of a module of an installed package.
\<close>

theorem clientConfig_vendor_group_witness:
  "\<exists>vendor.
     optimization (clientConfig (ascii ''/app/dist'') []) =
       Some \<lparr>splitChunks = \<lparr>cacheGroups = [(ascii ''vendor'', vendor)]\<rparr>\<rparr> \<and>
     regexp_test (test vendor) (ascii ''/app/node_modules/react/index.js'')"
proof -
  from clientConfig_vendor_group [of "ascii ''/app/dist''" "[]"] obtain vendor where
    group: "optimization (clientConfig (ascii ''/app/dist'') []) =
       Some \<lparr>splitChunks = \<lparr>cacheGroups = [(ascii ''vendor'', vendor)]\<rparr>\<rparr>"
    and matches: "\<forall>dir sep rest. sep = cu CHR ''/'' \<or> sep = 0x5C \<longrightarrow>
        regexp_test (test vendor) (dir @ sep # ascii ''node_modules'' @ rest)"
    by blast
  have "cu CHR ''/'' = cu CHR ''/'' \<or> cu CHR ''/'' = (0x5C :: code_unit)" by simp
  with matches have "regexp_test (test vendor)
      (ascii ''/app'' @ cu CHR ''/'' # ascii ''node_modules'' @ ascii ''/react/index.js'')"
    by blast
  also have "ascii ''/app'' @ cu CHR ''/'' # ascii ''node_modules'' @ ascii ''/react/index.js''
      = ascii ''/app/node_modules/react/index.js''"
    by (simp add: ascii_def)
  finally show ?thesis using group by blast
qed

text \<open>
  C7. The output policy of the client profile names the main files
  \<^verbatim>\<open>[name]-[fullhash:8].js\<close> and the split chunks \<^verbatim>\<open>[name]-[chunkhash].chunk.js\<close>,
  and has \<^verbatim>\<open>clean\<close> set to \<^verbatim>\<open>true\<close>.
\<close>

theorem clientConfig_output_names:
  "filename (output_policy (clientConfig dist env)) = ascii ''[name]-[fullhash:8].js'' \<and>
   chunkFilename (output_policy (clientConfig dist env)) =
     Some (ascii ''[name]-[chunkhash].chunk.js'') \<and>
   clean (output_policy (clientConfig dist env)) = Some True"
  by (simp add: clientConfig_def)

text \<open>
  C6. The plugin list of the server profile holds \<open>limitChunksPlugin\<close>, it is the only
  chunk-limiting plugin of the list and its \<^verbatim>\<open>maxChunks\<close> is 1. The output filename of
  the server profile is the fixed string \<^verbatim>\<open>server.js\<close>, which has no placeholder
  (no \<^verbatim>\<open>[\<close>) and so no hash in it.
\<close>

theorem serverConfig_single_file:
  "[opts. LimitChunkCountPlugin opts \<leftarrow> plugins (serverConfig dist env)] = [\<lparr>maxChunks = 1\<rparr>] \<and>
   limitChunksPlugin \<in> set (plugins (serverConfig dist env)) \<and>
   filename (output_policy (serverConfig dist env)) = ascii ''server.js'' \<and>
   cu CHR ''['' \<notin> set (filename (output_policy (serverConfig dist env)))"
  by (simp add: serverConfig_def limitChunksPlugin_def getDefinePlugin_def ascii_def)

text \<open>
  C8. The externals of the server profile are the single rule built by
  \<^verbatim>\<open>nodeExternals\<close> with the allow-list \<^verbatim>\<open>/lyft/\<close>. A module name that matches the
  pattern, which is to say one that contains \<^verbatim>\<open>lyft\<close>, is never external to the
  profile; every other name among the host-provided packages is external.
\<close>

theorem serverConfig_externals:
  "externals (serverConfig dist env) =
     Some [nodeExternals \<lparr>allowlist = map PatternChar (ascii ''lyft'')\<rparr>] \<and>
   (regexp_test (map PatternChar (ascii ''lyft'')) module_name \<longrightarrow>
      \<not> is_external (serverConfig dist env) host module_name) \<and>
   (module_name \<in> set host \<and> \<not> regexp_test (map PatternChar (ascii ''lyft'')) module_name \<longrightarrow>
      is_external (serverConfig dist env) host module_name) \<and>
   (regexp_test (map PatternChar (ascii ''lyft'')) module_name \<longleftrightarrow>
      sublist (ascii ''lyft'') module_name)"
  by (simp add: serverConfig_def is_external_def regexp_test_literal)

text \<open>
  An allow-listed package and another host-provided package.
\<close>

theorem serverConfig_externals_witness:
  "\<not> is_external (serverConfig (ascii ''/app/dist'') []) [ascii ''express'', ascii ''@lyft/flyteidl'']
       (ascii ''@lyft/flyteidl'') \<and>
   is_external (serverConfig (ascii ''/app/dist'') []) [ascii ''express'', ascii ''@lyft/flyteidl'']
       (ascii ''express'')"
proof -
  let ?host = "[ascii ''express'', ascii ''@lyft/flyteidl'']"
  have "ascii ''@lyft/flyteidl'' = ascii ''@'' @ ascii ''lyft'' @ ascii ''/flyteidl''"
    by (simp add: ascii_def)
  then have "sublist (ascii ''lyft'') (ascii ''@lyft/flyteidl'')"
    by (simp only: sublist_appendI)
  then have inner: "regexp_test (map PatternChar (ascii ''lyft'')) (ascii ''@lyft/flyteidl'')"
    by (simp only: regexp_test_literal)
  have other: "ascii ''express'' \<in> set ?host \<and>
      \<not> regexp_test (map PatternChar (ascii ''lyft'')) (ascii ''express'')"
    by (simp add: ascii_def)
  from serverConfig_externals [of "ascii ''/app/dist''" "[]" "ascii ''@lyft/flyteidl''" ?host] inner
  have "\<not> is_external (serverConfig (ascii ''/app/dist'') []) ?host (ascii ''@lyft/flyteidl'')"
    by blast
  moreover
  from serverConfig_externals [of "ascii ''/app/dist''" "[]" "ascii ''express''" ?host] other
  have "is_external (serverConfig (ascii ''/app/dist'') []) ?host (ascii ''express'')"
    by blast
  ultimately show ?thesis by simp
qed

end
